theory Spec2Isabelle
  imports Main "HOL-Library.Sublist"
begin

section \<open>Strings\<close>

text \<open>
  A JavaScript string is a sequence of UTF-16 code units. The model uses \<open>string\<close> and
  reads a \<open>char\<close> as a code unit below 0x100, which covers every literal the program
  matches on (\<open>support\<close>, \<open>www.\<close>, \<open>_\<close>, ...).
\<close>

definition isWhiteSpace :: "char \<Rightarrow> bool" where
  \<comment> \<open>WhiteSpace and LineTerminator code units below 0x100: TAB, LF, VT, FF, CR, SP, NBSP.\<close>
  "isWhiteSpace c \<longleftrightarrow>
     c \<in> set [CHR 0x09, CHR 0x0A, CHR 0x0B, CHR 0x0C, CHR 0x0D, CHR 0x20, CHR 0xA0]"

definition trim :: "string \<Rightarrow> string" where
  \<comment> \<open>\<open>String.prototype.trim\<close>: white space removed from both ends.\<close>
  "trim s = rev (dropWhile isWhiteSpace (rev (dropWhile isWhiteSpace s)))"

definition toLowerCase_char :: "char \<Rightarrow> char" where
  \<comment> \<open>A-Z, and the Latin-1 capitals U+00C0..U+00DE without U+00D7, move up by 0x20:
      bit 5, which is clear in all of them, gets set.\<close>
  "toLowerCase_char c =
     (let n = (of_char c :: nat)
      in if (65 \<le> n \<and> n \<le> 90) \<or> (192 \<le> n \<and> n \<le> 222 \<and> n \<noteq> 215)
         then (case c of Char b0 b1 b2 b3 b4 b5 b6 b7 \<Rightarrow> Char b0 b1 b2 b3 b4 True b6 b7)
         else c)"

definition toLowerCase :: "string \<Rightarrow> string" where
  "toLowerCase s = map toLowerCase_char s"

fun includes_str :: "string \<Rightarrow> string \<Rightarrow> bool" where
  \<comment> \<open>\<open>s.includes(p)\<close>: \<open>p\<close> occurs in \<open>s\<close> as a contiguous run.\<close>
  "includes_str [] p = (p = [])"
| "includes_str (c # cs) p = (prefix p (c # cs) \<or> includes_str cs p)"

fun replace :: "string \<Rightarrow> string \<Rightarrow> string \<Rightarrow> string" where
  \<comment> \<open>\<open>s.replace(pat, rep)\<close> with a string pattern: only the leftmost occurrence of
      \<open>pat\<close> is replaced. The replacements used by the program contain no \<open>$\<close>.\<close>
  "replace [] pat rep = (if pat = [] then rep else [])"
| "replace (c # cs) pat rep =
     (if prefix pat (c # cs) then rep @ drop (length pat) (c # cs)
      else c # replace cs pat rep)"

section \<open>Data model\<close>

text \<open>The type \<open>'n\<close> stands for the JavaScript \<open>number\<close> of \<open>relevance_score\<close>.\<close>

record 'n EvidenceCardData =
  id' :: string
  title :: string
  link :: string
  snippet :: string
  description :: string
  relation_to_claim :: string
  source_type :: string
  relevance_score :: 'n

record 'n SearchResponse =
  response_query :: string
  evidence_cards :: "'n EvidenceCardData list"
  total_results :: int

record SourceType =
  value_of :: string
  label_of :: string

record 'n Home_state =
  query :: string
  results :: "'n SearchResponse option"
  isLoading :: bool
  error :: "string option"
  sourceTypes :: "SourceType list"
  selectedTypes :: "string list"
  hasSearched :: bool
  loadingMessage :: string

definition initial_state :: "'n Home_state" where
  \<comment> \<open>The arguments of the \<open>useState\<close> calls of \<open>Home\<close>.\<close>
  "initial_state =
     \<lparr>query = '''', results = None, isLoading = False, error = None, sourceTypes = [],
      selectedTypes = [], hasSearched = False, loadingMessage = ''ANALYZING EVIDENCE...''\<rparr>"

definition API_BASE_URL :: "string option \<Rightarrow> string" where
  \<comment> \<open>The argument is \<open>window.location.hostname\<close>, \<open>None\<close> where \<open>window\<close> is undefined.\<close>
  "API_BASE_URL hostname =
     (case hostname of
        None \<Rightarrow> ''''
      | Some h \<Rightarrow> if h = ''localhost'' then ''http://localhost:8000'' else '''')"

section \<open>Network and exceptions\<close>

text \<open>
  A value that reaches a \<open>catch\<close> is either an \<open>Error\<close> object, of which the handlers
  read the \<open>message\<close>, or some other value.
\<close>

datatype thrown = ErrorInstance string | NonError

record search_body =
  body_query :: string
  body_source_types :: "string list option"

record request =
  req_url :: string
  req_method :: string
  req_body :: "search_body option"

text \<open>
  What \<open>await fetch(...)\<close> of the search does: the promise rejects, or it resolves with
  a response that has an \<open>ok\<close> flag and a body on which \<open>response.json()\<close> either rejects
  or yields the data.
\<close>

datatype 'n search_fetch =
  Rejects thrown
| Resolves bool "thrown + 'n SearchResponse"

text \<open>
  The request for the source types: the promise rejects, or it resolves with a response.
  The response has an \<open>ok\<close> flag, which the effect never reads. After it the chain
  either rejects (\<open>res.json()\<close> rejects, or \<open>data\<close> is \<open>null\<close> and reading its member
  throws), or reads \<open>data.source_types\<close>: \<open>None\<close> where the body has no such member and
  the value is \<open>undefined\<close>, as in the JSON body of an error reply.
\<close>

datatype catalog_fetch =
  CatalogRejects thrown
| CatalogResolves bool "thrown + SourceType list option"

datatype log_entry = ConsoleError string thrown

section \<open>Search session controller\<close>

definition search_request :: "string \<Rightarrow> 'n Home_state \<Rightarrow> request" where
  "search_request base st =
     \<lparr>req_url = base @ ''/api/search'', req_method = ''POST'',
      req_body = Some \<lparr>body_query = trim (query st),
                   body_source_types =
                     (if length (selectedTypes st) > 0 then Some (selectedTypes st) else None)\<rparr>\<rparr>"

definition handleSearch_start :: "string \<Rightarrow> 'n Home_state \<Rightarrow> (request \<times> 'n Home_state) option" where
  \<comment> \<open>\<open>handleSearch\<close> up to its first \<open>await\<close>; \<open>None\<close> is the early \<open>return\<close>.\<close>
  "handleSearch_start base st =
     (if trim (query st) = [] then None
      else Some (search_request base st,
                 st\<lparr>isLoading := True, error := None, hasSearched := True\<rparr>))"

definition try_block :: "'n search_fetch \<Rightarrow> thrown + 'n SearchResponse" where
  \<comment> \<open>The \<open>try\<close> block after the request is sent: \<open>Inl\<close> is the value thrown.\<close>
  "try_block net =
     (case net of
        Rejects err \<Rightarrow> Inl err
      | Resolves ok json \<Rightarrow>
          if \<not> ok then Inl (ErrorInstance ''Search failed. Please try again.'')
          else json)"

definition handleSearch_settle :: "'n search_fetch \<Rightarrow> 'n Home_state \<Rightarrow> 'n Home_state" where
  \<comment> \<open>\<open>handleSearch\<close> from the settling of the request on: \<open>try\<close>, \<open>catch\<close>, \<open>finally\<close>.\<close>
  "handleSearch_settle net st =
     (let st' =
        (case try_block net of
           Inr data \<Rightarrow> st\<lparr>results := Some data\<rparr>
         | Inl err \<Rightarrow>
             st\<lparr>error := Some (case err of
                                 ErrorInstance m \<Rightarrow> m
                               | NonError \<Rightarrow> ''An unexpected error occurred''),
                results := None\<rparr>)
      in st'\<lparr>isLoading := False\<rparr>)"

definition handleSearch ::
  "string \<Rightarrow> 'n search_fetch \<Rightarrow> 'n Home_state \<Rightarrow> request list \<times> 'n Home_state" where
  \<comment> \<open>One whole call: the requests it issued and the state it leaves.\<close>
  "handleSearch base net st =
     (case handleSearch_start base st of
        None \<Rightarrow> ([], st)
      | Some (req, st1) \<Rightarrow> ([req], handleSearch_settle net st1))"

section \<open>Filter selector\<close>

definition toggleSourceType :: "string \<Rightarrow> 'n Home_state \<Rightarrow> 'n Home_state" where
  "toggleSourceType type st =
     st\<lparr>selectedTypes :=
          (let prev = selectedTypes st
           in if type \<in> set prev then filter (\<lambda>t. t \<noteq> type) prev else prev @ [type])\<rparr>"

section \<open>Source-type catalog loader\<close>

text \<open>
  \<open>Home_state\<close> follows the declared type \<open>SourceType[]\<close> of the \<open>sourceTypes\<close> state.
  The setter is called with a member of the untyped \<open>data\<close>, so at run time the state can
  also hold \<open>undefined\<close> there: a page is a state of the declared type, or a state whose
  other fields are as given and whose \<open>sourceTypes\<close> is \<open>undefined\<close>.
\<close>

datatype 'n page = Typed "'n Home_state" | SourceTypesUndefined "'n Home_state"

definition fetchSourceTypes :: "catalog_fetch \<Rightarrow> 'n Home_state \<Rightarrow> log_entry list \<times> 'n page" where
  \<comment> \<open>The mount effect. It does not look at \<open>res.ok\<close>: every response whose body parses
      reaches \<open>setSourceTypes\<close>; a rejection anywhere in the chain reaches \<open>catch\<close>.\<close>
  "fetchSourceTypes net st =
     (case net of
        CatalogRejects err \<Rightarrow> ([ConsoleError ''Failed to fetch source types:'' err], Typed st)
      | CatalogResolves ok json \<Rightarrow>
          (case json of
             Inl err \<Rightarrow> ([ConsoleError ''Failed to fetch source types:'' err], Typed st)
           | Inr None \<Rightarrow> ([], SourceTypesUndefined st)
           | Inr (Some source_types) \<Rightarrow> ([], Typed (st\<lparr>sourceTypes := source_types\<rparr>))))"

definition catalog_request :: "string \<Rightarrow> request" where
  "catalog_request base = \<lparr>req_url = base @ ''/api/source-types'', req_method = ''GET'', req_body = None\<rparr>"

section \<open>Ambient status rotator\<close>

definition loadingMessages :: "string list" where
  "loadingMessages =
     [''INITIALIZING SEARCH PROTOCOL...'',
      ''BYPASSING KNOWLEDGE BARRIERS...'',
      ''QUERYING GLOBAL DATA VECTORS...'',
      ''HARVESTING UNSTRUCTURED EVIDENCE...'',
      ''DECODING SOURCE CREDIBILITY...'',
      ''AI MATRIX ANALYSIS IN PROGRESS...'',
      ''MAPPING DATA RELATIONSHIPS...'',
      ''FINALIZING EVIDENCE SYNTHESIS...'']"

text \<open>
  The timer of the effect: none, or an interval registered with its delay in
  milliseconds, together with the \<open>index\<close> variable its callback closes over.
\<close>

datatype timer = NoTimer | Interval nat nat

definition clearInterval :: "timer \<Rightarrow> timer" where
  \<comment> \<open>The cleanup function returned by the effect.\<close>
  "clearInterval t = NoTimer"

definition loadingEffect :: "timer \<times> 'n Home_state \<Rightarrow> timer \<times> 'n Home_state" where
  \<comment> \<open>React runs the effect when \<open>isLoading\<close> has changed: first the cleanup of the
      previous run, then the body.\<close>
  "loadingEffect ts =
     (let t = clearInterval (fst ts); st = snd ts
      in if isLoading st
         then (Interval 2000 0, st\<lparr>loadingMessage := loadingMessages ! 0\<rparr>)
         else (t, st))"

definition intervalCallback :: "timer \<times> 'n Home_state \<Rightarrow> timer \<times> 'n Home_state" where
  \<comment> \<open>One firing of the interval; a cleared interval does not fire.\<close>
  "intervalCallback ts =
     (case fst ts of
        NoTimer \<Rightarrow> ts
      | Interval delay index \<Rightarrow>
          (let index' = (index + 1) mod length loadingMessages
           in (Interval delay index', (snd ts)\<lparr>loadingMessage := loadingMessages ! index'\<rparr>)))"

section \<open>Evidence item renderer\<close>

text \<open>
  The icons are \<open>U+2713\<close>, \<open>U+2717\<close>, \<open>U+1F4CB\<close>, \<open>U+3030 U+FE0F\<close> and \<open>U+1F517\<close>.
\<close>

datatype icon = Check | Cross | Clipboard | Wave | LinkSymbol

definition getRelationIcon :: "string \<Rightarrow> icon" where
  "getRelationIcon relation =
     (let lowerRelation = toLowerCase relation
      in if includes_str lowerRelation ''support'' then Check
         else if includes_str lowerRelation ''contradict'' then Cross
         else if includes_str lowerRelation ''context'' then Clipboard
         else if includes_str lowerRelation ''neutral'' then Wave
         else LinkSymbol)"

definition getDomain :: "(string \<Rightarrow> string option) \<Rightarrow> string \<Rightarrow> string" where
  \<comment> \<open>The first argument is the platform's URL parser followed by \<open>.hostname\<close>:
      \<open>None\<close> where \<open>new URL(url)\<close> throws.\<close>
  "getDomain URL_hostname url =
     (case URL_hostname url of
        Some domain \<Rightarrow> replace domain ''www.'' ''''
      | None \<Rightarrow> ''source'')"

record EvidenceCard_view =
  source_badge_class :: string
  source_badge :: string
  card_title :: string
  card_description :: string
  relation_icon :: icon
  relation_tag :: string
  card_link_href :: string
  card_link :: string

definition EvidenceCard :: "(string \<Rightarrow> string option) \<Rightarrow> 'n EvidenceCardData \<Rightarrow> EvidenceCard_view" where
  \<comment> \<open>The elements of the card whose content is text; the relevance score is a
      floating-point computation and is left out.\<close>
  "EvidenceCard URL_hostname props =
     \<lparr>source_badge_class = ''source-badge '' @ source_type props,
      source_badge = replace (source_type props) ''_'' '' '',
      card_title = title props,
      card_description = description props,
      relation_icon = getRelationIcon (relation_to_claim props),
      relation_tag = relation_to_claim props,
      card_link_href = link props,
      card_link = ''View on '' @ getDomain URL_hostname (link props)\<rparr>"

section \<open>The page\<close>

record FilterChips_props =
  chips_sourceTypes :: "SourceType list"
  chips_selectedTypes :: "string list"

definition FilterChips :: "FilterChips_props \<Rightarrow> (string \<times> bool \<times> string) list" where
  \<comment> \<open>One button per source type: its key, whether it is active, its label.\<close>
  "FilterChips props =
     map (\<lambda>type. (value_of type, value_of type \<in> set (chips_selectedTypes props), label_of type))
         (chips_sourceTypes props)"

datatype 'n results_body =
  EvidenceGrid "(string \<times> 'n EvidenceCardData) list"
| NoEvidenceFound

record 'n results_view =
  results_count :: int
  query_label :: string
  results_body :: "'n results_body"

record 'n Home_view =
  button_disabled :: bool
  button_text :: string
  filter_section :: "FilterChips_props option"
  loading_text :: "string option"
  error_message :: "string option"
  results_section :: "'n results_view option"
  ready_to_explore :: bool

definition Home :: "'n Home_state \<Rightarrow> 'n Home_view" where
  \<comment> \<open>The JSX returned by \<open>Home\<close>, section by section. An evidence card element is its
      \<open>key\<close> and its props.\<close>
  "Home st =
     \<lparr>button_disabled = (isLoading st \<or> trim (query st) = []),
      button_text = (if isLoading st then ''SEARCHING...'' else ''FIND EVIDENCE''),
      filter_section =
        (if length (sourceTypes st) > 0
         then Some \<lparr>chips_sourceTypes = sourceTypes st, chips_selectedTypes = selectedTypes st\<rparr>
         else None),
      loading_text = (if isLoading st then Some (loadingMessage st) else None),
      error_message =
        (case error st of
           None \<Rightarrow> None
         | Some m \<Rightarrow> if m = [] then None else Some m),
      results_section =
        (case results st of
           None \<Rightarrow> None
         | Some r \<Rightarrow>
             if isLoading st then None
             else Some \<lparr>results_count = total_results r,
                        query_label = response_query r,
                        results_body =
                          (if length (evidence_cards r) > 0
                           then EvidenceGrid (map (\<lambda>card. (id' card, card)) (evidence_cards r))
                           else NoEvidenceFound)\<rparr>),
      ready_to_explore = (\<not> hasSearched st \<and> \<not> isLoading st)\<rparr>"

definition rendered_cards :: "'n Home_view \<Rightarrow> (string \<times> 'n EvidenceCardData) list" where
  \<comment> \<open>The evidence card elements of a rendered page, in document order.\<close>
  "rendered_cards v =
     (case results_section v of
        None \<Rightarrow> []
      | Some r \<Rightarrow> (case results_body r of EvidenceGrid cs \<Rightarrow> cs | NoEvidenceFound \<Rightarrow> []))"


datatype render_error = TypeError

definition Home_render :: "'n page \<Rightarrow> render_error + 'n Home_view" where
  \<comment> \<open>A render of the page at run time: with \<open>sourceTypes\<close> undefined, evaluating
      \<open>sourceTypes.length\<close> in the filter section throws and nothing is rendered.\<close>
  "Home_render p =
     (case p of
        Typed st \<Rightarrow> Inr (Home st)
      | SourceTypesUndefined st \<Rightarrow> Inl TypeError)"

section \<open>The relation icon as the specification words it\<close>

definition priority_order :: "(string \<times> icon) list" where
  "priority_order =
     [(''support'', Check), (''contradict'', Cross), (''context'', Clipboard), (''neutral'', Wave)]"

definition relationIcon :: "string \<Rightarrow> icon" where
  \<comment> \<open>The first entry of the priority order whose word is a substring of the lower-cased
      input decides; with no such entry the result is the generic link symbol.\<close>
  "relationIcon relation =
     (case find (\<lambda>(word, symbol). sublist word (toLowerCase relation)) priority_order of
        Some (word, symbol) \<Rightarrow> symbol
      | None \<Rightarrow> LinkSymbol)"

section \<open>Example data\<close>

definition example_URL_hostname :: "string \<Rightarrow> string option" where
  \<comment> \<open>The host names the URL parser gives for the URLs of the examples below, and its
      failure on a string that is no URL.\<close>
  "example_URL_hostname =
     map_of [(''https://www.example.com/x'', ''www.example.com''),
             (''https://api.www.example.com/x'', ''api.www.example.com''),
             (''https://awww.com/'', ''awww.com'')]"

definition example_card :: "unit EvidenceCardData" where
  "example_card =
     \<lparr>id' = ''e1'', title = ''Coffee and health'', link = ''https://www.example.com/x'',
      snippet = ''s'', description = ''d'', relation_to_claim = ''This supports the claim'',
      source_type = ''peer_reviewed_journal'', relevance_score = ()\<rparr>"

definition example_response :: "unit SearchResponse" where
  "example_response =
     \<lparr>response_query = ''Is coffee healthy?'',
      evidence_cards = [example_card, example_card\<lparr>id' := ''e2'', source_type := ''news''\<rparr>],
      total_results = 5\<rparr>"

definition coffee_state :: "unit Home_state" where
  "coffee_state = initial_state\<lparr>query := ''  Is coffee healthy? ''\<rparr>"

section \<open>Facts about the string operations\<close>

lemma includes_str_sublist: "includes_str s p \<longleftrightarrow> sublist p s"
  by (induction s) (simp_all add: sublist_Cons_right)

lemma includes_str_iff: "includes_str s p \<longleftrightarrow> (\<exists>a b. s = a @ p @ b)"
  by (simp add: includes_str_sublist sublist_def)

lemma replace_absent: "c \<notin> set s \<Longrightarrow> replace s [c] rep = s"
  by (induction s) auto

lemma replace_leftmost: "c \<notin> set a \<Longrightarrow> replace (a @ c # b) [c] rep = a @ rep @ b"
  by (induction a) auto

lemma replace_prefix: "pat \<noteq> [] \<Longrightarrow> replace (pat @ s) pat rep = rep @ s"
  by (cases pat) auto

lemma toLowerCase_example: "toLowerCase ''It SUPPORTS'' = ''it supports''"
  by (simp add: toLowerCase_def toLowerCase_char_def)

lemma trim_coffee: "trim (query coffee_state) = ''Is coffee healthy?''"
  by (simp add: coffee_state_def initial_state_def trim_def isWhiteSpace_def)

section \<open>Evidence item renderer: the domain of a link\<close>

lemma getDomain_unparseable: "URL_hostname u = None \<Longrightarrow> getDomain URL_hostname u = ''source''"
  by (simp add: getDomain_def)

lemma getDomain_leading_www:
  "URL_hostname u = Some (''www.'' @ h) \<Longrightarrow> getDomain URL_hostname u = h"
  by (simp add: getDomain_def)

lemma getDomain_examples:
  "getDomain example_URL_hostname ''https://www.example.com/x'' = ''example.com''"
  "getDomain example_URL_hostname ''not a url'' = ''source''"
  by (simp_all add: getDomain_def example_URL_hostname_def)

text \<open>
  C1. \<open>getDomain\<close> is to return the host of the link with a leading \<open>www.\<close> stripped, and
  \<open>source\<close> for a link that does not parse. The two lemmas above give the fallback and the
  leading prefix. A host that contains \<open>www.\<close> further to the right has no leading prefix
  to strip, and still loses those four characters: \<open>api.www.example.com\<close> is shown as
  \<open>api.example.com\<close>, and \<open>awww.com\<close> as \<open>acom\<close>.
\<close>

theorem getDomain_inner_www:
  "getDomain example_URL_hostname ''https://api.www.example.com/x'' = ''api.example.com'' \<and>
   getDomain example_URL_hostname ''https://awww.com/'' = ''acom''"
  by (simp add: getDomain_def example_URL_hostname_def)

section \<open>Search session controller: the empty query\<close>

text \<open>
  C2. When the trimmed query is empty, \<open>handleSearch\<close> issues no request and returns the
  state it was given: \<open>isLoading\<close>, \<open>error\<close>, \<open>results\<close>, \<open>hasSearched\<close> and every other
  field are unchanged.
\<close>

theorem empty_query_noop:
  "trim (query st) = [] \<Longrightarrow> handleSearch base net st = ([], st)"
  by (simp add: handleSearch_def handleSearch_start_def)

theorem empty_query_noop_witness:
  "trim (query (initial_state\<lparr>query := [CHR '' '', CHR 0x09, CHR 0x0A]\<rparr> :: unit Home_state)) = [] \<and>
   handleSearch ''http://localhost:8000'' (Resolves True (Inr example_response))
      (initial_state\<lparr>query := [CHR '' '', CHR 0x09, CHR 0x0A]\<rparr>)
     = ([], initial_state\<lparr>query := [CHR '' '', CHR 0x09, CHR 0x0A]\<rparr>)"
proof -
  have h: "trim (query (initial_state\<lparr>query := [CHR '' '', CHR 0x09, CHR 0x0A]\<rparr> :: unit Home_state)) = []"
    by (simp add: initial_state_def trim_def isWhiteSpace_def)
  from h empty_query_noop [OF h] show ?thesis by simp
qed

section \<open>Search session controller: the request\<close>

text \<open>
  C3. When the trimmed query is not empty, \<open>handleSearch\<close> issues exactly one request, a
  POST to \<open>/api/search\<close> whose body holds the trimmed query and, as \<open>source_types\<close>, the
  selected filters when there are any and \<open>null\<close> otherwise; the body never holds an empty
  list.
\<close>

theorem search_request_body:
  "trim (query st) \<noteq> [] \<Longrightarrow>
   fst (handleSearch base net st) =
     [\<lparr>req_url = base @ ''/api/search'', req_method = ''POST'',
       req_body = Some \<lparr>body_query = trim (query st),
                         body_source_types =
                           (if selectedTypes st \<noteq> [] then Some (selectedTypes st) else None)\<rparr>\<rparr>] \<and>
   (\<forall>r \<in> set (fst (handleSearch base net st)).
      \<forall>b. req_body r = Some b \<longrightarrow> body_source_types b \<noteq> Some [])"
  by (simp add: handleSearch_def handleSearch_start_def search_request_def)

theorem search_request_body_witness:
  "trim (query coffee_state) \<noteq> [] \<and>
   fst (handleSearch '''' (Rejects NonError) coffee_state) =
     [\<lparr>req_url = ''/api/search'', req_method = ''POST'',
       req_body = Some \<lparr>body_query = ''Is coffee healthy?'', body_source_types = None\<rparr>\<rparr>]"
proof -
  have h: "trim (query coffee_state) \<noteq> []"
    by (simp add: trim_coffee)
  from search_request_body [OF h, of "''''" "Rejects NonError"] h show ?thesis
    by (simp add: trim_coffee) (simp add: coffee_state_def initial_state_def)
qed

section \<open>Search session controller: failure\<close>

text \<open>
  The values that can be thrown inside the \<open>try\<close> block are \<open>Error\<close> objects: \<open>fetch\<close>,
  called without an abort signal, rejects with a \<open>TypeError\<close>, \<open>response.json()\<close> rejects
  with a \<open>SyntaxError\<close> or a \<open>TypeError\<close>, and the block itself throws \<open>new Error\<close>. The
  other branch of the \<open>catch\<close> clause is part of the model all the same.
\<close>

lemma search_failure_non_error:
  "handleSearch_settle (Rejects NonError) st =
     st\<lparr>isLoading := False, results := None, error := Some ''An unexpected error occurred''\<rparr>"
  by (simp add: handleSearch_settle_def try_block_def)

text \<open>
  C4. A search that is sent and does not succeed leaves the state with \<open>isLoading\<close> off,
  the prior results discarded and an error message. For a response that is not 2xx,
  whatever its body, the message is the fixed string \<open>Search failed. Please try again.\<close>;
  for a request that fails with an error of its own, the message is that error's message.
\<close>

theorem search_failure_state:
  "trim (query st) \<noteq> [] \<Longrightarrow>
   snd (handleSearch base (Resolves False json) st) =
     st\<lparr>isLoading := False, hasSearched := True, results := None,
        error := Some ''Search failed. Please try again.''\<rparr> \<and>
   snd (handleSearch base (Rejects (ErrorInstance m)) st) =
     st\<lparr>isLoading := False, hasSearched := True, results := None, error := Some m\<rparr>"
  by (simp add: handleSearch_def handleSearch_start_def handleSearch_settle_def try_block_def)

theorem search_failure_state_witness:
  "trim (query (coffee_state\<lparr>results := Some example_response\<rparr>)) \<noteq> [] \<and>
   error (snd (handleSearch '''' (Resolves False (Inr example_response))
                 (coffee_state\<lparr>results := Some example_response\<rparr>)))
     = Some ''Search failed. Please try again.'' \<and>
   results (snd (handleSearch '''' (Resolves False (Inr example_response))
                 (coffee_state\<lparr>results := Some example_response\<rparr>))) = None \<and>
   error (snd (handleSearch '''' (Rejects (ErrorInstance ''Failed to fetch''))
                 (coffee_state\<lparr>results := Some example_response\<rparr>))) = Some ''Failed to fetch'' \<and>
   results (snd (handleSearch '''' (Rejects (ErrorInstance ''Failed to fetch''))
                 (coffee_state\<lparr>results := Some example_response\<rparr>))) = None"
proof -
  have h: "trim (query (coffee_state\<lparr>results := Some example_response\<rparr>)) \<noteq> []"
    using trim_coffee by (simp add: coffee_state_def)
  from search_failure_state [OF h, of "''''" "Inr example_response" "''Failed to fetch''"] h
  show ?thesis by (simp add: coffee_state_def)
qed

section \<open>Ambient status rotator\<close>

lemma length_loadingMessages: "length loadingMessages = 8"
  by (simp add: loadingMessages_def)

lemma distinct_loadingMessages: "distinct loadingMessages"
  by (simp add: loadingMessages_def)

lemma intervalCallback_Interval:
  "intervalCallback (Interval d i, st) =
     (Interval d ((i + 1) mod 8), st\<lparr>loadingMessage := loadingMessages ! ((i + 1) mod 8)\<rparr>)"
  by (simp add: intervalCallback_def length_loadingMessages Let_def)

lemma intervalCallback_NoTimer: "(intervalCallback ^^ n) (NoTimer, st) = (NoTimer, st)"
  by (induction n) (simp_all add: intervalCallback_def)

lemma intervalCallback_funpow:
  "(intervalCallback ^^ Suc n) (Interval d i, st) =
     (Interval d ((i + Suc n) mod 8), st\<lparr>loadingMessage := loadingMessages ! ((i + Suc n) mod 8)\<rparr>)"
proof (induction n)
  case 0
  show ?case by (simp add: intervalCallback_Interval)
next
  case (Suc n)
  have "(intervalCallback ^^ Suc (Suc n)) (Interval d i, st) =
        intervalCallback ((intervalCallback ^^ Suc n) (Interval d i, st))"
    by simp
  also have "\<dots> = intervalCallback (Interval d ((i + Suc n) mod 8),
                 st\<lparr>loadingMessage := loadingMessages ! ((i + Suc n) mod 8)\<rparr>)"
    by (simp only: Suc.IH)
  also have "\<dots> = (Interval d ((i + Suc (Suc n)) mod 8),
                 st\<lparr>loadingMessage := loadingMessages ! ((i + Suc (Suc n)) mod 8)\<rparr>)"
    by (simp add: intervalCallback_Interval mod_Suc_eq)
  finally show ?case .
qed

lemma rotation_after_start:
  "loadingMessage (snd ((intervalCallback ^^ n) (Interval d 0, st\<lparr>loadingMessage := loadingMessages ! 0\<rparr>)))
     = loadingMessages ! (n mod 8)"
proof (cases n)
  case 0
  then show ?thesis by simp
next
  case (Suc k)
  then show ?thesis by (simp only: intervalCallback_funpow) simp
qed

text \<open>
  C5. The list of status messages has exactly eight entries, all different. When the
  effect runs with \<open>isLoading\<close> on, whatever timer and message were there before, it
  registers an interval of 2000 ms and shows the first message at once; after \<open>n\<close> firings
  of the interval the message shown is entry \<open>n mod 8\<close> of the list, so the rotation keeps
  the order and wraps after the eighth. When the effect runs with \<open>isLoading\<close> off, the
  interval is cleared and no later firing changes anything.
\<close>

theorem loading_rotation:
  "length loadingMessages = 8 \<and> distinct loadingMessages \<and>
   (isLoading st \<longrightarrow>
      fst (loadingEffect (t, st)) = Interval 2000 0 \<and>
      (\<forall>n. loadingMessage (snd ((intervalCallback ^^ n) (loadingEffect (t, st))))
             = loadingMessages ! (n mod 8))) \<and>
   (\<not> isLoading st \<longrightarrow>
      fst (loadingEffect (t, st)) = NoTimer \<and>
      (\<forall>n. (intervalCallback ^^ n) (loadingEffect (t, st)) = (NoTimer, st)))"
  by (simp add: length_loadingMessages distinct_loadingMessages loadingEffect_def
        clearInterval_def rotation_after_start intervalCallback_NoTimer)

theorem loading_rotation_witness:
  "isLoading (coffee_state\<lparr>isLoading := True\<rparr>) \<and>
   loadingMessage (snd ((intervalCallback ^^ 9)
      (loadingEffect (NoTimer, coffee_state\<lparr>isLoading := True\<rparr>)))) = ''BYPASSING KNOWLEDGE BARRIERS...'' \<and>
   \<not> isLoading coffee_state \<and>
   fst (loadingEffect (Interval 2000 3, coffee_state)) = NoTimer"
  using loading_rotation [of "coffee_state\<lparr>isLoading := True\<rparr>" NoTimer]
        loading_rotation [of coffee_state "Interval 2000 3"]
  by (simp add: coffee_state_def initial_state_def loadingMessages_def)

section \<open>Evidence item renderer: the relation icon\<close>

lemma getRelationIcon_examples:
  "getRelationIcon ''This supports the claim'' = Check"
  "getRelationIcon ''Partially contradicts'' = Cross"
  "getRelationIcon ''Background context'' = Clipboard"
  "getRelationIcon ''NEUTRAL'' = Wave"
  "getRelationIcon ''unrelated'' = LinkSymbol"
  by (simp_all add: getRelationIcon_def toLowerCase_def toLowerCase_char_def)

text \<open>
  C6. \<open>getRelationIcon\<close> computes what the priority order says: the symbol of the first of
  \<open>support\<close>, \<open>contradict\<close>, \<open>context\<close>, \<open>neutral\<close> that occurs in the lower-cased input, and
  the link symbol when none occurs. In particular an input that contains \<open>support\<close> gets
  the check symbol, whichever of the other words it contains as well.
\<close>

theorem getRelationIcon_priority:
  "getRelationIcon r = relationIcon r \<and>
   (sublist ''support'' (toLowerCase r) \<longrightarrow> getRelationIcon r = Check)"
  by (simp add: getRelationIcon_def relationIcon_def priority_order_def includes_str_sublist Let_def)

theorem getRelationIcon_priority_witness:
  "sublist ''support'' (toLowerCase ''It SUPPORTS, not contradicts'') \<and>
   sublist ''contradict'' (toLowerCase ''It SUPPORTS, not contradicts'') \<and>
   getRelationIcon ''It SUPPORTS, not contradicts'' = Check \<and>
   relationIcon ''It SUPPORTS, not contradicts'' = Check"
proof -
  have h: "sublist ''support'' (toLowerCase ''It SUPPORTS, not contradicts'')"
    unfolding includes_str_sublist [symmetric] by (simp add: toLowerCase_def toLowerCase_char_def)
  have c: "sublist ''contradict'' (toLowerCase ''It SUPPORTS, not contradicts'')"
    unfolding includes_str_sublist [symmetric] by (simp add: toLowerCase_def toLowerCase_char_def)
  note t = getRelationIcon_priority [of "''It SUPPORTS, not contradicts''"]
  from t h have g: "getRelationIcon ''It SUPPORTS, not contradicts'' = Check"
    by blast
  from t g have "relationIcon ''It SUPPORTS, not contradicts'' = Check"
    by (simp only:)
  with h c g show ?thesis by blast
qed

section \<open>The page: evidence cards\<close>

text \<open>
  C7. After a search that succeeds with response \<open>r\<close>, the page holds one evidence card
  element for each entry of \<open>evidence_cards r\<close>, in the order of that list, each with the
  entry's \<open>id\<close> as key and the entry as props. Their number is the length of the list, and
  changing \<open>total_results\<close> changes none of them.
\<close>

theorem renders_every_card:
  "trim (query st) \<noteq> [] \<Longrightarrow>
   rendered_cards (Home (snd (handleSearch base (Resolves True (Inr r)) st)))
     = map (\<lambda>card. (id' card, card)) (evidence_cards r) \<and>
   length (rendered_cards (Home (snd (handleSearch base (Resolves True (Inr r)) st))))
     = length (evidence_cards r) \<and>
   rendered_cards (Home (snd (handleSearch base (Resolves True (Inr (r\<lparr>total_results := k\<rparr>))) st)))
     = rendered_cards (Home (snd (handleSearch base (Resolves True (Inr r)) st)))"
  by (simp add: handleSearch_def handleSearch_start_def handleSearch_settle_def try_block_def
        Home_def rendered_cards_def)

theorem renders_every_card_witness:
  "trim (query coffee_state) \<noteq> [] \<and>
   total_results example_response = 5 \<and>
   length (rendered_cards (Home (snd (handleSearch '''' (Resolves True (Inr example_response)) coffee_state)))) = 2 \<and>
   map fst (rendered_cards (Home (snd (handleSearch '''' (Resolves True (Inr example_response)) coffee_state))))
     = [''e1'', ''e2'']"
proof -
  have h: "trim (query coffee_state) \<noteq> []"
    by (simp add: trim_coffee)
  from renders_every_card [OF h, of "''''" example_response] h show ?thesis
    by (simp add: example_response_def example_card_def)
qed

section \<open>Source-type catalog loader: failure\<close>

text \<open>
  When the request for the source types rejects, or the chain rejects after the response,
  the failure is written to the console and the state is returned as it was. From the
  initial state the catalog is then still empty, the page renders with no error message
  and no filter section (which is shown exactly when the catalog is not empty), and a
  search with a non-empty query is sent with \<open>source_types: null\<close>.
\<close>

lemma catalog_rejection_is_silent:
  "net = CatalogRejects err \<or> net = CatalogResolves ok (Inl err) \<Longrightarrow>
   fetchSourceTypes net st = ([ConsoleError ''Failed to fetch source types:'' err], Typed st) \<and>
   Home_render (snd (fetchSourceTypes net st)) = Inr (Home st) \<and>
   sourceTypes (initial_state :: 'n Home_state) = [] \<and>
   error_message (Home (initial_state :: 'n Home_state)) = None \<and>
   (filter_section (Home st) = None \<longleftrightarrow> sourceTypes st = []) \<and>
   (trim q \<noteq> [] \<longrightarrow>
      map req_body (fst (handleSearch base net' ((initial_state :: 'n Home_state)\<lparr>query := q\<rparr>)))
        = [Some \<lparr>body_query = trim q, body_source_types = None\<rparr>])"
  by (auto simp add: fetchSourceTypes_def Home_render_def Home_def initial_state_def
        handleSearch_def handleSearch_start_def search_request_def)

text \<open>
  C8. A failed catalog fetch is to leave the catalog empty, be logged, show no error and
  no filter section, and leave search working. A reply that is not 2xx and has a JSON
  body without \<open>source_types\<close>, such as \<open>{"detail": "Not Found"}\<close>, is such a failure, and
  the effect treats it as data: nothing is logged, \<open>sourceTypes\<close> becomes \<open>undefined\<close>, and
  the next render of the page throws instead of showing the page without the filter
  section. The search handler tests \<open>response.ok\<close>; this effect does not.
\<close>

theorem catalog_error_reply_breaks_page:
  "fetchSourceTypes (CatalogResolves False (Inr None)) (initial_state :: unit Home_state)
     = ([], SourceTypesUndefined initial_state) \<and>
   Home_render (snd (fetchSourceTypes (CatalogResolves False (Inr None))
                       (initial_state :: unit Home_state))) = Inl TypeError"
  by (simp add: fetchSourceTypes_def Home_render_def)

section \<open>Filter selector: toggling\<close>

text \<open>
  C9. For every filter value \<open>v\<close> and every list of selected filters, \<open>toggleSourceType\<close>
  adds \<open>v\<close> to the members when it is absent and removes it from them when it is present,
  and toggling \<open>v\<close> twice in succession gives a selection with the same members as the
  original one.
\<close>

theorem toggle_twice_same_set:
  "(v \<notin> set (selectedTypes st) \<longrightarrow>
      set (selectedTypes (toggleSourceType v st)) = insert v (set (selectedTypes st))) \<and>
   (v \<in> set (selectedTypes st) \<longrightarrow>
      set (selectedTypes (toggleSourceType v st)) = set (selectedTypes st) - {v}) \<and>
   set (selectedTypes (toggleSourceType v (toggleSourceType v st))) = set (selectedTypes st)"
  by (auto simp: toggleSourceType_def Let_def)

theorem toggle_twice_same_set_witness:
  "''academic'' \<notin> set (selectedTypes (coffee_state\<lparr>selectedTypes := [''news'', ''blog'']\<rparr>)) \<and>
   selectedTypes (toggleSourceType ''academic'' (coffee_state\<lparr>selectedTypes := [''news'', ''blog'']\<rparr>))
     = [''news'', ''blog'', ''academic''] \<and>
   ''news'' \<in> set (selectedTypes (coffee_state\<lparr>selectedTypes := [''news'', ''blog'']\<rparr>)) \<and>
   set (selectedTypes (toggleSourceType ''news'' (coffee_state\<lparr>selectedTypes := [''news'', ''blog'']\<rparr>)))
     = {''blog''} \<and>
   set (selectedTypes (toggleSourceType ''news''
          (toggleSourceType ''news'' (coffee_state\<lparr>selectedTypes := [''news'', ''blog'']\<rparr>))))
     = {''news'', ''blog''}"
  using toggle_twice_same_set [of "''academic''" "coffee_state\<lparr>selectedTypes := [''news'', ''blog'']\<rparr>"]
        toggle_twice_same_set [of "''news''" "coffee_state\<lparr>selectedTypes := [''news'', ''blog'']\<rparr>"]
  by (auto simp: toggleSourceType_def)

section \<open>Evidence item renderer: the source-type badge\<close>

text \<open>
  C10. The badge of a card shows the source type with its first underscore replaced by a
  space and everything else as it is, later underscores included; a source type without
  underscore is shown unchanged.
\<close>

theorem source_badge_first_underscore:
  "(CHR ''_'' \<notin> set a \<and> source_type props = a @ CHR ''_'' # b \<longrightarrow>
      source_badge (EvidenceCard URL_hostname props) = a @ CHR '' '' # b) \<and>
   (CHR ''_'' \<notin> set (source_type props) \<longrightarrow>
      source_badge (EvidenceCard URL_hostname props) = source_type props)"
  by (simp add: EvidenceCard_def replace_leftmost replace_absent)

theorem source_badge_first_underscore_witness:
  "CHR ''_'' \<notin> set ''peer'' \<and>
   source_type example_card = ''peer'' @ CHR ''_'' # ''reviewed_journal'' \<and>
   source_badge (EvidenceCard Map.empty example_card) = ''peer reviewed_journal'' \<and>
   CHR ''_'' \<notin> set (source_type (example_card\<lparr>source_type := ''news''\<rparr>)) \<and>
   source_badge (EvidenceCard Map.empty (example_card\<lparr>source_type := ''news''\<rparr>)) = ''news''"
  using source_badge_first_underscore [of "''peer''" example_card "''reviewed_journal''" Map.empty]
        source_badge_first_underscore [of "''peer''" "example_card\<lparr>source_type := ''news''\<rparr>" "''reviewed_journal''" Map.empty]
  by (simp add: example_card_def)

end
